theory Spec2Isabelle
  imports Main "HOL-Library.AList"
begin

section \<open>Strings\<close>

text \<open>
  The module under study is \<^verbatim>\<open>build/sriHashGenerator.js\<close>. A JavaScript string is
  modelled as the list of its code units, restricted to code units below 256, so that
  the HTML text, the URLs and the hashes are values of type \<^typ>\<open>string\<close>.

  All four regular expressions of the module carry the flags \<^verbatim>\<open>gi\<close>. Under the
  \<^verbatim>\<open>i\<close> flag two code units match when their canonical forms (the upper-case
  mapping of a single code unit) agree. Below 256 that mapping sends \<^verbatim>\<open>a-z\<close> and
  the code units 224 to 254 other than 247 to the code unit 32 below, and leaves every
  other code unit alone. On the eight bits of a character (\<open>b0\<close> the lowest) this
  clears \<open>b5\<close> of a character that has \<open>b5\<close> and \<open>b6\<close> set and whose five low bits
  are a number from 1 to 26 when \<open>b7\<close> is clear, and any number but 23 and 31 when
  \<open>b7\<close> is set; \<open>canonicalize_arith\<close> below states it on the code unit's number.
\<close>

fun canonicalize :: "char \<Rightarrow> char" where
  "canonicalize (Char b0 b1 b2 b3 b4 b5 b6 b7) =
     (if b5 \<and> b6 \<and>
         (if b7 then \<not> (b0 \<and> b1 \<and> b2 \<and> b4)
          else (b0 \<or> b1 \<or> b2 \<or> b3 \<or> b4) \<and> \<not> (b3 \<and> b4 \<and> (b2 \<or> b0 \<and> b1)))
      then Char b0 b1 b2 b3 b4 False b6 b7
      else Char b0 b1 b2 b3 b4 b5 b6 b7)"

lemma canonicalize_arith:
  "canonicalize c =
     (let n = (of_char c :: nat)
      in if (97 \<le> n \<and> n \<le> 122) \<or> (224 \<le> n \<and> n \<le> 254 \<and> n \<noteq> 247)
         then char_of (n - 32) else c)"
proof (cases c)
  case (Char b0 b1 b2 b3 b4 b5 b6 b7)
  show ?thesis
    unfolding Char
    by (cases b0; cases b1; cases b2; cases b3; cases b4; cases b5; cases b6; cases b7)
       (simp_all add: Let_def char_of_def bit_0)
qed

text \<open>The code units below 256 that the class escape \<^verbatim>\<open>\s\<close> stands for.\<close>

definition whitespace :: "char list" where
  "whitespace = [CHR 0x09, CHR 0x0A, CHR 0x0B, CHR 0x0C, CHR 0x0D, CHR 0x20, CHR 0xA0]"

abbreviation bsl :: char where
  "bsl \<equiv> CHR 0x5C"

text \<open>\<^verbatim>\<open>String.prototype.startsWith\<close> and \<^verbatim>\<open>String.prototype.includes\<close>.\<close>

fun startsWith :: "string \<Rightarrow> string \<Rightarrow> bool" where
  "startsWith s [] = True"
| "startsWith [] (p # ps) = False"
| "startsWith (c # cs) (p # ps) = (c = p \<and> startsWith cs ps)"

fun str_includes :: "string \<Rightarrow> string \<Rightarrow> bool" where
  "str_includes [] p = (p = [])"
| "str_includes (c # cs) p = (startsWith (c # cs) p \<or> str_includes cs p)"

section \<open>Regular expressions\<close>

subsection \<open>Patterns\<close>

text \<open>
  The patterns of the module use literal characters, the character classes
  \<^verbatim>\<open>[...]\<close> and \<^verbatim>\<open>[^...]\<close>, the greedy quantifiers \<^verbatim>\<open>?\<close>, \<^verbatim>\<open>*\<close> and
  \<^verbatim>\<open>+\<close> on a single character or class, and capture groups that are neither nested
  nor quantified. A pattern is a list of nodes.
\<close>

datatype atom = Lit char | OneOf "char list" | NoneOf "char list"

datatype quant = Once | Opt | Star | Plus

datatype node = Item atom quant | GOpen | GClose

text \<open>
  The syntax characters of a pattern; \<^verbatim>\<open>escapeRegex\<close> puts a backslash in front of
  exactly these: its pattern is \<^verbatim>\<open>/[.*+?^${}()|[\]\\]/g\<close> and its replacement
  \<^verbatim>\<open>'\\$&'\<close>.
\<close>

definition syntax_chars :: "char list" where
  "syntax_chars = ''.*+?^${}()|[]'' @ [bsl]"

definition escapeRegex :: "string \<Rightarrow> string" where
  "escapeRegex str = concat (map (\<lambda>c. if c \<in> set syntax_chars then [bsl, c] else [c]) str)"

text \<open>
  The pattern parser reads the source text of a pattern from left to right. It is in one
  of four states: at top level, after a backslash, inside a class, and after a backslash
  inside a class. Whatever lies outside the fragment described above (alternation,
  anchors, the dot, braces, class ranges, lazy quantifiers, quantified groups, escapes
  such as \<^verbatim>\<open>\d\<close>) is refused.
\<close>

datatype pstate = Top | Esc | Cls bool "char list" | ClsEsc bool "char list"

fun class_atom :: "bool \<Rightarrow> char list \<Rightarrow> atom" where
  "class_atom True ms = NoneOf (rev ms)"
| "class_atom False ms = OneOf (rev ms)"

fun quantify :: "char \<Rightarrow> node list \<Rightarrow> node list option" where
  "quantify q (Item a Once # acc) =
     Some (Item a (if q = CHR ''?'' then Opt else if q = CHR ''*'' then Star else Plus) # acc)"
| "quantify q _ = None"

fun parse :: "pstate \<Rightarrow> node list \<Rightarrow> string \<Rightarrow> node list option" where
  "parse Top acc [] = Some (rev acc)"
| "parse st acc [] = None"
| "parse Top acc (c # cs) =
     (if c = bsl then parse Esc acc cs
      else if c = CHR ''('' then parse Top (GOpen # acc) cs
      else if c = CHR '')'' then parse Top (GClose # acc) cs
      else if c = CHR ''['' then
        (case cs of
           d # ds \<Rightarrow> if d = CHR ''^'' then parse (Cls True []) acc ds
                     else parse (Cls False []) acc cs
         | [] \<Rightarrow> None)
      else if c \<in> set ''?*+'' then
        (case quantify c acc of Some acc' \<Rightarrow> parse Top acc' cs | None \<Rightarrow> None)
      else if c \<in> set syntax_chars then None
      else parse Top (Item (Lit c) Once # acc) cs)"
| "parse Esc acc (c # cs) =
     (if c \<in> set syntax_chars \<or> c = CHR ''/'' then parse Top (Item (Lit c) Once # acc) cs
      else None)"
| "parse (Cls neg ms) acc (c # cs) =
     (if c = CHR '']'' then parse Top (Item (class_atom neg ms) Once # acc) cs
      else if c = bsl then parse (ClsEsc neg ms) acc cs
      else if c = CHR ''-'' then None
      else parse (Cls neg (c # ms)) acc cs)"
| "parse (ClsEsc neg ms) acc (c # cs) =
     (if c = CHR ''s'' then parse (Cls neg (rev whitespace @ ms)) acc cs
      else if c \<in> set syntax_chars \<or> c = CHR ''/'' then parse (Cls neg (c # ms)) acc cs
      else None)"

text \<open>
  What a function of the module can end with instead of a value: the exception of
  \<^verbatim>\<open>new RegExp\<close> on a pattern that does not parse, a loop that never ends, and
  the rejection of the promise of a request. The error of a rejection has the message
  \<^verbatim>\<open>Failed to fetch <url>: HTTP <status>\<close> or
  \<^verbatim>\<open>Failed to fetch <url>: <message of the request's error>\<close>; it is kept as the
  URL and the cause.
\<close>

datatype cause = HttpStatus nat | ErrorMessage string

datatype failure = SyntaxError | NoTermination | FetchError string cause

definition RegExp :: "string \<Rightarrow> failure + node list" where
  "RegExp src = (case parse Top [] src of Some re \<Rightarrow> Inr re | None \<Rightarrow> Inl SyntaxError)"

subsection \<open>Matching\<close>

text \<open>When a character matches an atom, under the \<^verbatim>\<open>i\<close> flag.\<close>

fun am :: "atom \<Rightarrow> char \<Rightarrow> bool" where
  "am (Lit x) c = (canonicalize c = canonicalize x)"
| "am (OneOf xs) c = (canonicalize c \<in> canonicalize ` set xs)"
| "am (NoneOf xs) c = (canonicalize c \<notin> canonicalize ` set xs)"

fun grow :: "char \<Rightarrow> string list \<Rightarrow> string list" where
  "grow c [] = [[c]]"
| "grow c (seg # segs) = (c # seg) # segs"

text \<open>
  The backtracking matcher: \<open>bt re s\<close> matches the pattern at the start of \<open>s\<close> and
  returns, for every node of the pattern, the text that node consumed (a group mark
  consumes nothing). A greedy quantifier first tries to consume one more character and
  falls back to the rest of the pattern only when that fails, so the first match in the
  priority order of a backtracking engine is returned.
\<close>

fun bt :: "node list \<Rightarrow> string \<Rightarrow> string list option" where
  "bt [] s = Some []"
| "bt (GOpen # r) s = map_option (Cons []) (bt r s)"
| "bt (GClose # r) s = map_option (Cons []) (bt r s)"
| "bt (Item a Once # r) [] = None"
| "bt (Item a Once # r) (c # cs) =
     (if am a c then map_option (Cons [c]) (bt r cs) else None)"
| "bt (Item a Opt # r) [] = map_option (Cons []) (bt r [])"
| "bt (Item a Opt # r) (c # cs) =
     (case (if am a c then map_option (Cons [c]) (bt r cs) else None) of
        Some segs \<Rightarrow> Some segs
      | None \<Rightarrow> map_option (Cons []) (bt r (c # cs)))"
| "bt (Item a Star # r) [] = map_option (Cons []) (bt r [])"
| "bt (Item a Star # r) (c # cs) =
     (case (if am a c then map_option (grow c) (bt (Item a Star # r) cs) else None) of
        Some segs \<Rightarrow> Some segs
      | None \<Rightarrow> map_option (Cons []) (bt r (c # cs)))"
| "bt (Item a Plus # r) [] = None"
| "bt (Item a Plus # r) (c # cs) =
     (if am a c then map_option (grow c) (bt (Item a Star # r) cs) else None)"

text \<open>
  The leftmost match: the text before it, the segments of the match, and the text
  after it.
\<close>

fun search :: "node list \<Rightarrow> string \<Rightarrow> (string \<times> string list \<times> string) option" where
  "search re [] =
     (case bt re [] of Some segs \<Rightarrow> Some ([], segs, []) | None \<Rightarrow> None)"
| "search re (c # cs) =
     (case bt re (c # cs) of
        Some segs \<Rightarrow> Some ([], segs, drop (length (concat segs)) (c # cs))
      | None \<Rightarrow>
          (case search re cs of
             Some (pre, segs, rest) \<Rightarrow> Some (c # pre, segs, rest)
           | None \<Rightarrow> None))"

text \<open>The text captured by the \<open>k\<close>-th group of a match (\<open>k\<close> counts from 1).\<close>

fun capture_body :: "node list \<Rightarrow> string list \<Rightarrow> string" where
  "capture_body (GClose # ns) segs = []"
| "capture_body (n # ns) (seg # segs) = seg @ capture_body ns segs"
| "capture_body _ _ = []"

fun capture :: "nat \<Rightarrow> node list \<Rightarrow> string list \<Rightarrow> string" where
  "capture k (GOpen # ns) (seg # segs) =
     (if k = 1 then capture_body ns segs else capture (k - 1) ns segs)"
| "capture k (n # ns) (seg # segs) = capture k ns segs"
| "capture k _ _ = []"

subsection \<open>The matcher consumes a prefix of its input\<close>

lemma concat_grow: "concat (grow c segs) = c # concat segs"
  by (cases segs) simp_all

lemma length_grow: "length segs = Suc n \<Longrightarrow> length (grow c segs) = Suc n"
  by (cases segs) simp_all

lemma bt_length: "bt re s = Some segs \<Longrightarrow> length segs = length re"
proof (induction re s arbitrary: segs rule: bt.induct)
  case (9 a r c cs)
  then show ?case
    by (auto split: if_splits option.splits simp: length_grow)
next
  case (11 a r c cs)
  then show ?case
    by (auto split: if_splits option.splits simp: length_grow)
qed (auto split: if_splits option.splits)

lemma bt_concat: "bt re s = Some segs \<Longrightarrow> \<exists>rest. s = concat segs @ rest"
proof (induction re s arbitrary: segs rule: bt.induct)
  case (9 a r c cs)
  then show ?case
    by (auto split: if_splits option.splits simp: concat_grow)
next
  case (11 a r c cs)
  then show ?case
    by (auto split: if_splits option.splits simp: concat_grow)
qed (auto split: if_splits option.splits)

lemma search_decomp:
  "search re s = Some (pre, segs, rest) \<Longrightarrow> s = pre @ concat segs @ rest"
proof (induction s arbitrary: pre)
  case Nil
  then show ?case
    by (auto split: option.splits dest: bt_concat)
next
  case (Cons c cs)
  show ?case
  proof (cases "bt re (c # cs)")
    case None
    with Cons show ?thesis
      by (auto split: option.splits)
  next
    case (Some sg)
    with Cons.prems have eqs: "pre = []" "segs = sg" "rest = drop (length (concat sg)) (c # cs)"
      by auto
    from bt_concat [OF Some] obtain r where r: "c # cs = concat sg @ r" ..
    then have "drop (length (concat sg)) (c # cs) = r"
      by (metis append_eq_conv_conj)
    with eqs r show ?thesis
      by simp
  qed
qed

subsection \<open>The loops over all matches\<close>

text \<open>
  \<^verbatim>\<open>while ((match = regex.exec(html)) !== null) { body }\<close> on a regular expression
  with the \<^verbatim>\<open>g\<close> flag: every call searches from \<^verbatim>\<open>lastIndex\<close>, the end of the
  match before. After an empty match \<^verbatim>\<open>lastIndex\<close> stays where it is, the next call
  finds the same match, and the loop never ends.
\<close>

function exec_loop ::
  "node list \<Rightarrow> (string list \<Rightarrow> 'a \<Rightarrow> 'a) \<Rightarrow> string \<Rightarrow> 'a \<Rightarrow> failure + 'a" where
  "exec_loop re body s acc =
     (case search re s of
        None \<Rightarrow> Inr acc
      | Some (pre, segs, rest) \<Rightarrow>
          if concat segs = [] then Inl NoTermination
          else exec_loop re body rest (body segs acc))"
  by pat_completeness auto
termination
proof (relation "measure (\<lambda>(re, body, s, acc). length s)")
  fix re :: "node list" and body :: "string list \<Rightarrow> 'a \<Rightarrow> 'a" and s acc x2 pre y segs rest
  assume "search re s = Some x2" "(pre, y) = x2" "(segs, rest) = y" "concat segs \<noteq> []"
  then have "search re s = Some (pre, segs, rest)"
    by simp
  from search_decomp [OF this] \<open>concat segs \<noteq> []\<close>
  show "((re, body, rest, body segs acc), re, body, s, acc)
          \<in> measure (\<lambda>(re, body, s, acc). length s)"
    by (cases "concat segs") auto
qed simp

text \<open>
  \<^verbatim>\<open>String.prototype.replace\<close> with a \<^verbatim>\<open>g\<close> regular expression and a replacer
  function: the matches are found from left to right in the original text, none
  overlapping the one before, and each is replaced by what the replacer returns for it.
  After an empty match the search goes on one character further.
\<close>

function replace :: "node list \<Rightarrow> (string list \<Rightarrow> string) \<Rightarrow> string \<Rightarrow> string" where
  "replace re f s =
     (case search re s of
        None \<Rightarrow> s
      | Some (pre, segs, rest) \<Rightarrow>
          if concat segs = [] then
            (case rest of
               [] \<Rightarrow> pre @ f segs
             | c # cs \<Rightarrow> pre @ f segs @ c # replace re f cs)
          else pre @ f segs @ replace re f rest)"
  by pat_completeness auto
termination
proof (relation "measure (\<lambda>(re, f, s). length s)")
  fix re :: "node list" and f :: "string list \<Rightarrow> string" and s x2 pre y segs rest c cs
  assume "search re s = Some x2" "(pre, y) = x2" "(segs, rest) = y" "rest = c # cs"
  then have "search re s = Some (pre, segs, c # cs)"
    by simp
  from search_decomp [OF this]
  show "((re, f, cs), re, f, s) \<in> measure (\<lambda>(re, f, s). length s)"
    by auto
next
  fix re :: "node list" and f :: "string list \<Rightarrow> string" and s x2 pre y segs rest
  assume "search re s = Some x2" "(pre, y) = x2" "(segs, rest) = y" "concat segs \<noteq> []"
  then have "search re s = Some (pre, segs, rest)"
    by simp
  from search_decomp [OF this] \<open>concat segs \<noteq> []\<close>
  show "((re, f, rest), re, f, s) \<in> measure (\<lambda>(re, f, s). length s)"
    by (cases "concat segs") auto
qed simp

declare exec_loop.simps [simp del] replace.simps [simp del]

section \<open>The module\<close>

subsection \<open>generateSRIHash, generateSRIHashFromURL, generateSRIHashesForURLs\<close>

text \<open>
  The digest of the \<^verbatim>\<open>crypto\<close> library (\<^verbatim>\<open>createHash(algorithm)\<close>,
  \<^verbatim>\<open>update(content)\<close>, \<^verbatim>\<open>digest('base64')\<close>) is a parameter \<open>digest\<close>, for an
  algorithm name that the library knows.
\<close>

definition generateSRIHash :: "(string \<Rightarrow> string \<Rightarrow> string) \<Rightarrow> string \<Rightarrow> string \<Rightarrow> string" where
  "generateSRIHash digest content algorithm = algorithm @ ''-'' @ digest algorithm content"

text \<open>
  The network is a parameter too. A request is made through one of the two clients; it
  ends with the \<^verbatim>\<open>error\<close> event of the request or with a response, of which the
  function reads the status code and the body. The \<open>k\<close>-th request of a run (\<open>k\<close> counts
  from 0) for the URL \<open>url\<close> through the client \<open>cl\<close> ends with \<open>net k cl url\<close>. The
  requests made so far are kept in a log. A request that never ends is outside this
  model.
\<close>

datatype client = Http | Https

datatype outcome = NetworkError string | Response nat string

type_synonym network = "nat \<Rightarrow> client \<Rightarrow> string \<Rightarrow> outcome"

type_synonym request_log = "(client \<times> string) list"

definition client_of :: "string \<Rightarrow> client" where
  "client_of url = (if startsWith url ''https'' then Https else Http)"

definition generateSRIHashFromURL ::
  "(string \<Rightarrow> string \<Rightarrow> string) \<Rightarrow> network \<Rightarrow> string \<Rightarrow> string \<Rightarrow> request_log
     \<Rightarrow> (failure + string) \<times> request_log" where
  "generateSRIHashFromURL digest net url algorithm log =
     (case net (length log) (client_of url) url of
        Response statusCode content \<Rightarrow>
          if statusCode \<noteq> 200 then Inl (FetchError url (HttpStatus statusCode))
          else Inr (generateSRIHash digest content algorithm)
      | NetworkError message \<Rightarrow> Inl (FetchError url (ErrorMessage message)),
      log @ [(client_of url, url)])"

text \<open>\<^verbatim>\<open>try { block } catch (error) { handler }\<close>, on the value of the block.\<close>

definition try_catch :: "failure + 'a \<Rightarrow> (failure \<Rightarrow> failure + 'a) \<Rightarrow> failure + 'a" where
  "try_catch block handler = (case block of Inl error \<Rightarrow> handler error | Inr v \<Rightarrow> Inr v)"

text \<open>
  The object \<^verbatim>\<open>results\<close> is an association list in the order of its keys'
  creation: an assignment replaces the value of a key that is there and appends a new
  key at the end. \<open>None\<close> is \<^verbatim>\<open>null\<close>. This is the behaviour of an object for
  ordinary property names, as URLs are; the name \<^verbatim>\<open>__proto__\<close>, whose assignment sets
  the prototype and creates no key, and names that are canonical array indices, which are
  enumerated before all others, are not modelled.
\<close>

fun generateSRIHashesForURLs_loop ::
  "(string \<Rightarrow> string \<Rightarrow> string) \<Rightarrow> network \<Rightarrow> string list \<Rightarrow> string
     \<Rightarrow> (string \<times> string option) list \<Rightarrow> request_log
     \<Rightarrow> (failure + (string \<times> string option) list) \<times> request_log" where
  "generateSRIHashesForURLs_loop digest net [] algorithm results log = (Inr results, log)"
| "generateSRIHashesForURLs_loop digest net (url # urls) algorithm results log =
     (case generateSRIHashFromURL digest net url algorithm log of
        (awaited, log') \<Rightarrow>
          (case try_catch
                  (case awaited of
                     Inl error \<Rightarrow> Inl error
                   | Inr hash \<Rightarrow> Inr (AList.update url (Some hash) results))
                  (\<lambda>error. Inr (AList.update url None results)) of
             Inl error \<Rightarrow> (Inl error, log')
           | Inr results' \<Rightarrow>
               generateSRIHashesForURLs_loop digest net urls algorithm results' log'))"

definition generateSRIHashesForURLs ::
  "(string \<Rightarrow> string \<Rightarrow> string) \<Rightarrow> network \<Rightarrow> string list \<Rightarrow> string \<Rightarrow> request_log
     \<Rightarrow> (failure + (string \<times> string option) list) \<times> request_log" where
  "generateSRIHashesForURLs digest net urls algorithm log =
     generateSRIHashesForURLs_loop digest net urls algorithm [] log"

subsection \<open>extractExternalResources\<close>

text \<open>
  The sources of the two regular expression literals, \<^verbatim>\<open>scriptRegex\<close> and
  \<^verbatim>\<open>linkRegex\<close>, character by character.
\<close>

definition scriptRegex_source :: string where
  \<open>scriptRegex_source =
     ''<script[^>]+src=["']?(https?:'' @ [bsl] @ ''/'' @ [bsl] @ ''/[^"'' @ [CHR 0x27, bsl]
       @ ''s>]+)["']?[^>]*>''\<close>

definition linkRegex_source :: string where
  \<open>linkRegex_source =
     ''<link[^>]+href=["']?(https?:'' @ [bsl] @ ''/'' @ [bsl] @ ''/[^"'' @ [CHR 0x27, bsl]
       @ ''s>]+)["']?[^>]*>''\<close>

record resources =
  scripts :: "string list"
  stylesheets :: "string list"

text \<open>The bodies of the two \<^verbatim>\<open>while\<close> loops, on the list they push to.\<close>

definition script_body :: "node list \<Rightarrow> string list \<Rightarrow> string list \<Rightarrow> string list" where
  "script_body re match acc =
     (let url = capture 1 re match
      in if url \<notin> set acc then acc @ [url] else acc)"

definition link_body :: "node list \<Rightarrow> string list \<Rightarrow> string list \<Rightarrow> string list" where
  "link_body re match acc =
     (let url = capture 1 re match; fullTag = concat match
      in if str_includes fullTag ''stylesheet'' \<and> url \<notin> set acc then acc @ [url] else acc)"

definition extractExternalResources :: "string \<Rightarrow> failure + resources" where
  "extractExternalResources html =
     (case RegExp scriptRegex_source of
        Inl e \<Rightarrow> Inl e
      | Inr scriptRegex \<Rightarrow>
          (case exec_loop scriptRegex (script_body scriptRegex) html [] of
             Inl e \<Rightarrow> Inl e
           | Inr ss \<Rightarrow>
               (case RegExp linkRegex_source of
                  Inl e \<Rightarrow> Inl e
                | Inr linkRegex \<Rightarrow>
                    (case exec_loop linkRegex (link_body linkRegex) html [] of
                       Inl e \<Rightarrow> Inl e
                     | Inr ls \<Rightarrow> Inr \<lparr>scripts = ss, stylesheets = ls\<rparr>))))"

subsection \<open>addSRIAttributesToHTML\<close>

text \<open>The two template literals that \<^verbatim>\<open>new RegExp\<close> receives for a URL.\<close>

definition sri_script_source :: "string \<Rightarrow> string" where
  \<open>sri_script_source url = ''(<script[^>]+src=["']?'' @ escapeRegex url @ ''["']?)([^>]*>)''\<close>

definition sri_link_source :: "string \<Rightarrow> string" where
  \<open>sri_link_source url = ''(<link[^>]+href=["']?'' @ escapeRegex url @ ''["']?)([^>]*>)''\<close>

text \<open>
  The replacer \<^verbatim>\<open>(match, opening, closing) => ...\<close> of both calls of
  \<^verbatim>\<open>replace\<close>.
\<close>

definition replacer :: "node list \<Rightarrow> string \<Rightarrow> string list \<Rightarrow> string" where
  \<open>replacer re hash segs =
     (let match = concat segs; opening = capture 1 re segs; closing = capture 2 re segs
      in if str_includes opening ''integrity='' then match
         else opening @ '' integrity="'' @ hash @ ''" crossorigin="anonymous"'' @ closing)\<close>

text \<open>
  The map \<^verbatim>\<open>sriHashes\<close> is given as the list \<^verbatim>\<open>Object.entries(sriHashes)\<close>. An
  entry is skipped (\<^verbatim>\<open>if (!hash) continue\<close>) when its hash is \<^verbatim>\<open>null\<close> or the
  empty string.
\<close>

fun addSRIAttributesToHTML :: "string \<Rightarrow> (string \<times> string option) list \<Rightarrow> failure + string" where
  "addSRIAttributesToHTML updatedHtml [] = Inr updatedHtml"
| "addSRIAttributesToHTML updatedHtml ((url, None) # entries) =
     addSRIAttributesToHTML updatedHtml entries"
| "addSRIAttributesToHTML updatedHtml ((url, Some hash) # entries) =
     (if hash = [] then addSRIAttributesToHTML updatedHtml entries
      else
        (case RegExp (sri_script_source url) of
           Inl e \<Rightarrow> Inl e
         | Inr scriptRegex \<Rightarrow>
             (let updatedHtml' = replace scriptRegex (replacer scriptRegex hash) updatedHtml
              in (case RegExp (sri_link_source url) of
                    Inl e \<Rightarrow> Inl e
                  | Inr linkRegex \<Rightarrow>
                      addSRIAttributesToHTML
                        (replace linkRegex (replacer linkRegex hash) updatedHtml') entries))))"

subsection \<open>processHTMLForSRI\<close>

record processing_result =
  r_html :: string
  r_resources :: resources
  r_hashes :: "(string \<times> string option) list"
  r_modified :: bool

definition processHTMLForSRI ::
  "(string \<Rightarrow> string \<Rightarrow> string) \<Rightarrow> network \<Rightarrow> string \<Rightarrow> string \<Rightarrow> bool \<Rightarrow> request_log
     \<Rightarrow> (failure + processing_result) \<times> request_log" where
  "processHTMLForSRI digest net html algorithm skipFetch log =
     (case extractExternalResources html of
        Inl e \<Rightarrow> (Inl e, log)
      | Inr res \<Rightarrow>
          (let allUrls = scripts res @ stylesheets res
           in if length allUrls = 0 then
                (Inr \<lparr>r_html = html, r_resources = res, r_hashes = [], r_modified = False\<rparr>, log)
              else if skipFetch then
                (Inr \<lparr>r_html = html, r_resources = res, r_hashes = [], r_modified = False\<rparr>, log)
              else
                (case generateSRIHashesForURLs digest net allUrls algorithm log of
                   (Inl e, log') \<Rightarrow> (Inl e, log')
                 | (Inr hashes, log') \<Rightarrow>
                     (case addSRIAttributesToHTML html hashes of
                        Inl e \<Rightarrow> (Inl e, log')
                      | Inr updatedHtml \<Rightarrow>
                          (Inr \<lparr>r_html = updatedHtml, r_resources = res, r_hashes = hashes,
                                r_modified = (updatedHtml \<noteq> html)\<rparr>, log')))))"

section \<open>The batch of requests\<close>








text \<open>
  Claim C9. \<^verbatim>\<open>generateSRIHashFromURL\<close> resolves with a hash exactly when the response
  has the status 200. With any other status (301 and 302 are not followed, 204 is not
  accepted) the promise is rejected, and the batch records \<^verbatim>\<open>null\<close> for the URL.
\<close>

theorem fetch_succeeds_only_on_200:
  "((\<exists>hash. fst (generateSRIHashFromURL digest net url algorithm log) = Inr hash)
      \<longleftrightarrow> (\<exists>content. net (length log) (client_of url) url = Response 200 content))
   \<and> (\<forall>statusCode content.
         net (length log) (client_of url) url = Response statusCode content \<and> statusCode \<noteq> 200
         \<longrightarrow> fst (generateSRIHashFromURL digest net url algorithm log)
               = Inl (FetchError url (HttpStatus statusCode))
             \<and> fst (generateSRIHashesForURLs digest net [url] algorithm log) = Inr [(url, None)])"
  by (auto simp: generateSRIHashFromURL_def generateSRIHashesForURLs_def try_catch_def
           split: outcome.splits)

text \<open>
  Claim C9, at a response with the status 301: the promise is rejected and the batch
  records \<^verbatim>\<open>null\<close>.
\<close>

theorem fetch_succeeds_only_on_200_witness:
  "(\<lambda>k cl u. Response 301 ''moved'') (length []) (client_of ''https://cdn.example.com/a.js'')
       ''https://cdn.example.com/a.js'' = Response 301 ''moved''
   \<and> (301 :: nat) \<noteq> 200
   \<and> fst (generateSRIHashesForURLs (\<lambda>a c. ''DIGEST'') (\<lambda>k cl u. Response 301 ''moved'')
            [''https://cdn.example.com/a.js''] ''sha384'' [])
       = Inr [(''https://cdn.example.com/a.js'', None)]
   \<and> \<not> (\<exists>hash. fst (generateSRIHashFromURL (\<lambda>a c. ''DIGEST'') (\<lambda>k cl u. Response 301 ''moved'')
            ''https://cdn.example.com/a.js'' ''sha384'' []) = Inr hash)"
  using fetch_succeeds_only_on_200 [of "\<lambda>a c. ''DIGEST''" "\<lambda>k cl u. Response 301 ''moved''"
      "''https://cdn.example.com/a.js''" "''sha384''" "[]"]
  by simp





section \<open>The orchestrator\<close>

text \<open>
  Claim C8. When \<^verbatim>\<open>extractExternalResources\<close> finds no script and no stylesheet,
  \<^verbatim>\<open>processHTMLForSRI\<close> returns at once: the HTML of the result is the input text, the
  hash map is empty, \<^verbatim>\<open>modified\<close> is false, and no request has been made (the request
  log is the one it started with).
\<close>

theorem no_resources_short_circuit:
  assumes "extractExternalResources html = Inr res"
      and "scripts res = []" and "stylesheets res = []"
  shows "processHTMLForSRI digest net html algorithm skipFetch log
           = (Inr \<lparr>r_html = html, r_resources = res, r_hashes = [], r_modified = False\<rparr>, log)"
  using assms by (simp add: processHTMLForSRI_def)

lemma local_only_html:
  \<open>extractExternalResources
     ''<head><link rel="stylesheet" href="css/local.css"><script src="js/local.js"></script></head>''
   = Inr \<lparr>scripts = [], stylesheets = []\<rparr>\<close>
  by code_simp

text \<open>
  Claim C8, at a document that refers to a local stylesheet and a local script only.
\<close>

theorem no_resources_short_circuit_witness:
  \<open>processHTMLForSRI (\<lambda>a c. ''DIGEST'') (\<lambda>k cl u. Response 200 ''body'')
     ''<head><link rel="stylesheet" href="css/local.css"><script src="js/local.js"></script></head>''
     ''sha384'' False []
   = (Inr \<lparr>r_html = ''<head><link rel="stylesheet" href="css/local.css"><script src="js/local.js"></script></head>'',
            r_resources = \<lparr>scripts = [], stylesheets = []\<rparr>, r_hashes = [],
            r_modified = False\<rparr>, [])\<close>
  using no_resources_short_circuit [OF local_only_html]
  by simp

section \<open>The four patterns, parsed\<close>

text \<open>
  The node lists that the parser returns for the two literals of
  \<^verbatim>\<open>extractExternalResources\<close>, and for the two patterns that
  \<^verbatim>\<open>addSRIAttributesToHTML\<close> builds for a URL. In the latter the escaped URL parses as
  the URL's own characters, one literal each, whatever the URL is: that is what
  \<^verbatim>\<open>escapeRegex\<close> is for.
\<close>

definition lits :: "string \<Rightarrow> node list" where
  "lits u = map (\<lambda>c. Item (Lit c) Once) u"

definition quotes :: "char list" where
  "quotes = [CHR 0x22, CHR 0x27]"

definition scriptRegex :: "node list" where
  "scriptRegex =
     lits ''<script'' @ [Item (NoneOf ''>'') Plus] @ lits ''src='' @ [Item (OneOf quotes) Opt, GOpen]
     @ lits ''http'' @ [Item (Lit CHR ''s'') Opt] @ lits ''://''
     @ [Item (NoneOf (quotes @ whitespace @ ''>'')) Plus, GClose, Item (OneOf quotes) Opt,
        Item (NoneOf ''>'') Star, Item (Lit CHR ''>'') Once]"

definition linkRegex :: "node list" where
  "linkRegex =
     lits ''<link'' @ [Item (NoneOf ''>'') Plus] @ lits ''href='' @ [Item (OneOf quotes) Opt, GOpen]
     @ lits ''http'' @ [Item (Lit CHR ''s'') Opt] @ lits ''://''
     @ [Item (NoneOf (quotes @ whitespace @ ''>'')) Plus, GClose, Item (OneOf quotes) Opt,
        Item (NoneOf ''>'') Star, Item (Lit CHR ''>'') Once]"








section \<open>What a match is\<close>







section \<open>The matches that the loops go through\<close>








text \<open>
  The elements of a list in the order of their first occurrence, each once; the two
  loops of \<^verbatim>\<open>extractExternalResources\<close> compute it.
\<close>

primrec keep_first :: "'a list \<Rightarrow> 'a list" where
  "keep_first [] = []"
| "keep_first (x # xs) = x # removeAll x (keep_first xs)"

lemma set_keep_first [simp]: "set (keep_first xs) = set xs"
  by (induction xs) auto

lemma distinct_keep_first [simp]: "distinct (keep_first xs)"
  by (induction xs) (auto simp: distinct_removeAll)







section \<open>The resource locator\<close>













text \<open>
  Claim C4 fails on the code: a link tag with the relation \<^verbatim>\<open>preload\<close> whose URL
  contains the text \<^verbatim>\<open>stylesheet\<close> is placed in the list of stylesheets, since the
  test for the marker reads the whole tag, the URL included.
\<close>

theorem preload_link_with_marker_in_url:
  \<open>extractExternalResources
     ''<link rel="preload" href="https://cdn.example.com/stylesheet.woff2">''
   = Inr \<lparr>scripts = [], stylesheets = [''https://cdn.example.com/stylesheet.woff2'']\<rparr>\<close>
  by code_simp

section \<open>The rewriter\<close>

subsection \<open>The text changes by insertions only\<close>






text \<open>
  The two groups of a pattern of the rewriter lie side by side and cover the pattern, so
  \<^verbatim>\<open>opening\<close> followed by \<^verbatim>\<open>closing\<close> is the match.
\<close>

fun is_item :: "node \<Rightarrow> bool" where
  "is_item (Item a q) = True"
| "is_item _ = False"



lemma is_item_lits [simp]: "n \<in> set (lits u) \<Longrightarrow> is_item n"
  by (auto simp: lits_def)

lemma length_lits [simp]: "length (lits u) = length u"
  by (simp add: lits_def)











subsection \<open>Entries with a null hash\<close>






subsection \<open>A tag whose reference is the URL\<close>

text \<open>
  The match of the rewriter's pattern on a tag that consists of the tag name, a text
  \<open>A\<close>, the attribute name, and the reference \<open>ref\<close> in double quotes, where \<open>ref\<close> is
  the URL up to letter case. The greedy class after the tag name first runs to the end
  of the tag and then gives back characters until the rest of the pattern matches; no
  start of the attribute name to the right of the real one can succeed, since too few
  characters are left before the closing angle bracket.
\<close>

lemma canon_gt [simp]: "canonicalize c = CHR ''>'' \<longleftrightarrow> c = CHR ''>''"
  by (cases c) (auto split: if_splits)

lemma canon_lt [simp]: "canonicalize c = CHR ''<'' \<longleftrightarrow> c = CHR ''<''"
  by (cases c) (auto split: if_splits)

lemma am_not_gt [simp]: "am (NoneOf ''>'') c \<longleftrightarrow> c \<noteq> CHR ''>''"
  by simp

lemma am_quotes_not_gt: "am (OneOf quotes) c \<Longrightarrow> c \<noteq> CHR ''>''"
  by (auto simp: quotes_def)

lemma am_Lit_not_gt: "am (Lit x) c \<Longrightarrow> x \<noteq> CHR ''>'' \<Longrightarrow> c \<noteq> CHR ''>''"
  by (metis am.simps(1) canon_gt)

lemma lits_Nil [simp]: "lits [] = []"
  by (simp add: lits_def)

lemma lits_Cons [simp]: "lits (c # cs) = Item (Lit c) Once # lits cs"
  by (simp add: lits_def)














definition singletons :: "string \<Rightarrow> string list" where
  "singletons v = map (\<lambda>c. [c]) v"

lemma concat_singletons [simp]: "concat (singletons v) = v"
  by (induction v) (simp_all add: singletons_def)

lemma length_singletons [simp]: "length (singletons v) = length v"
  by (simp add: singletons_def)




text \<open>The segments of the match of a tag \<open>tag A attr "ref">\<close>.\<close>

definition tag_segments :: "string \<Rightarrow> string \<Rightarrow> string \<Rightarrow> string \<Rightarrow> string list" where
  \<open>tag_segments tag A attr ref =
     [] # singletons tag @ A # singletons attr @ ''"'' # singletons ref
       @ [''"'', [], [], [], ''>'', []]\<close>









lemma concat_tag_segments [simp]:
  \<open>concat (tag_segments tag A attr ref) = tag @ A @ attr @ ''"'' @ ref @ ''">''\<close>
  by (simp add: tag_segments_def)










subsection \<open>A text in which the URL does not occur\<close>






subsection \<open>The claims on the rewriter\<close>







text \<open>
  The pattern ends the URL with an optional quote, so a reference that goes on after the
  URL is matched as well, and the attributes are put inside its quotes.
\<close>

lemma reference_extending_the_url_is_rewritten:
  \<open>addSRIAttributesToHTML ''<script src="https://cdn.example.com/a.js.map"></script>''
       [(''https://cdn.example.com/a.js'', Some ''sha384-XXXX'')]
     = Inr ''<script src="https://cdn.example.com/a.js integrity="sha384-XXXX" crossorigin="anonymous".map"></script>''\<close>
  by code_simp







text \<open>
  Claim C1 fails on the code. The replacer looks for \<^verbatim>\<open>integrity=\<close> in
  \<^verbatim>\<open>opening\<close>, the part of the tag that ends with the URL and its quote, while it
  inserts the attributes after that part. So it does not see the attributes of its own
  output, and a second run with the same map inserts them again: the text after two runs
  differs from the text after one.
\<close>

theorem rewriting_twice_duplicates_the_attributes:
  \<open>addSRIAttributesToHTML ''<script src="https://cdn.example.com/a.js"></script>''
       [(''https://cdn.example.com/a.js'', Some ''sha384-XXXX'')]
     = Inr ''<script src="https://cdn.example.com/a.js" integrity="sha384-XXXX" crossorigin="anonymous"></script>''
   \<and> addSRIAttributesToHTML
       ''<script src="https://cdn.example.com/a.js" integrity="sha384-XXXX" crossorigin="anonymous"></script>''
       [(''https://cdn.example.com/a.js'', Some ''sha384-XXXX'')]
     = Inr ''<script src="https://cdn.example.com/a.js" integrity="sha384-XXXX" crossorigin="anonymous" integrity="sha384-XXXX" crossorigin="anonymous"></script>''\<close>
  by code_simp

text \<open>
  Claim C2 fails on the code, for the same reason: a tag that has an integrity attribute
  after its reference is rewritten, and then carries two integrity attributes.
\<close>

theorem tag_with_integrity_gets_a_second_one:
  \<open>addSRIAttributesToHTML
       ''<link rel="stylesheet" href="https://cdn.example.com/style.css" integrity="sha384-OLD">''
       [(''https://cdn.example.com/style.css'', Some ''sha384-NEW'')]
     = Inr ''<link rel="stylesheet" href="https://cdn.example.com/style.css" integrity="sha384-NEW" crossorigin="anonymous" integrity="sha384-OLD">''\<close>
  by code_simp

end
